theory Spec2Isabelle
  imports Complex_Main "HOL-Library.Word"
begin

section \<open>Errors and tensors\<close>

text \<open>
  The helpers of \<^verbatim>\<open>Cookbook/utils\<close> catch nothing: whatever the wrapped framework
  raises reaches the caller. Every raise is a value of \<open>error\<close>, and a fallible call
  returns \<open>error + 'a\<close> with \<open>Inl\<close> for the raise.
\<close>

datatype error =
    Overflow            \<comment> \<open>a Python integer that does not fit a 64-bit argument\<close>
  | NegativeDimension   \<comment> \<open>a tensor shape with a negative entry\<close>
  | InvalidRange        \<comment> \<open>\<^verbatim>\<open>random_ expects 'from' to be less than 'to'\<close>\<close>
  | EmptyTensorList     \<comment> \<open>\<^verbatim>\<open>torch.cat(): expected a non-empty list of Tensors\<close>\<close>
  | NotInitialized      \<comment> \<open>the default process group has not been initialised\<close>
  | ZeroDivisionError
  | NameError string    \<comment> \<open>\<^verbatim>\<open>name '...' is not defined\<close>\<close>
  | ModelError          \<comment> \<open>whatever the benchmarked model raises\<close>
  | DeviceError         \<comment> \<open>an accelerator call without a usable accelerator\<close>

text \<open>
  \<^verbatim>\<open>torch.randint\<close> and \<^verbatim>\<open>torch.cat\<close> produce one-dimensional tensors of the default
  integer type, signed 64 bits: a tensor is the list of its entries, \<open>sint\<close> reads an
  entry, and \<^verbatim>\<open>t.sum()\<close> adds in 64 bits, wrapping around.
\<close>

type_synonym tensor = "64 word list"

definition tensor_sum :: "tensor \<Rightarrow> 64 word" where
  "tensor_sum t = foldr (+) t 0"

definition int64_ok :: "int \<Rightarrow> bool" where
  "int64_ok i \<longleftrightarrow> - (2 ^ 63) \<le> i \<and> i < 2 ^ 63"

section \<open>The random-range primitive\<close>

text \<open>
  Modelled from the spec: the random-range primitive \<^verbatim>\<open>torch.randint\<close> of the external
  tensor library, which is no part of the sources. The spec (4.2) has it draw \<open>n\<close>
  integers from \<open>[low, high)\<close>, the upper bound exclusive, and raise when
  \<open>low = high\<close>. The library converts the three arguments to 64 bits, allocates the
  result (a negative size raises), checks \<open>low < high\<close> (otherwise it raises), and fills
  the \<open>n\<close> entries in order.

  The library keeps one global random generator. Its state is a value of an arbitrary
  type \<open>'g\<close>, and \<open>nxt\<close> is its raw draw: a number and the next state. Nothing is assumed
  about \<open>nxt\<close>, so every theorem below holds for any generator; how the draws are
  distributed is not modelled.
\<close>

fun draws :: "('g \<Rightarrow> nat \<times> 'g) \<Rightarrow> int \<Rightarrow> nat \<Rightarrow> nat \<Rightarrow> 'g \<Rightarrow> tensor \<times> 'g" where
  "draws nxt low width 0 g = ([], g)"
| "draws nxt low width (Suc n) g =
     (case nxt g of (r, g1) \<Rightarrow>
        (case draws nxt low width n g1 of (xs, g2) \<Rightarrow>
           (word_of_int (low + int (r mod width)) # xs, g2)))"

definition torch_randint ::
  "('g \<Rightarrow> nat \<times> 'g) \<Rightarrow> int \<Rightarrow> int \<Rightarrow> int \<Rightarrow> 'g \<Rightarrow> error + (tensor \<times> 'g)" where
  "torch_randint nxt low high n g =
     (if \<not> (int64_ok low \<and> int64_ok high \<and> int64_ok n) then Inl Overflow
      else if n < 0 then Inl NegativeDimension
      else if \<not> low < high then Inl InvalidRange
      else Inr (draws nxt low (nat (high - low)) (nat n) g))"

text \<open>
  \<^verbatim>\<open>torch.cat\<close> of a list of one-dimensional tensors, also external: the entries of the
  tensors in list order. The library refuses an empty list with a \<^verbatim>\<open>RuntimeError\<close>.
\<close>

definition torch_cat :: "tensor list \<Rightarrow> error + tensor" where
  "torch_cat ts = (if ts = [] then Inl EmptyTensorList else Inr (concat ts))"

text \<open>
  \<^verbatim>\<open>torch.manual_seed(s)\<close> replaces the global state by one that depends on \<open>s\<close> only
  (\<open>seeded s\<close>, again arbitrary); a seed outside \<open>[-2^63, 2^64)\<close> raises.
\<close>

definition torch_manual_seed :: "(int \<Rightarrow> 'g) \<Rightarrow> int \<Rightarrow> 'g \<Rightarrow> error + 'g" where
  "torch_manual_seed seeded s g =
     (if - (2 ^ 63) \<le> s \<and> s < 2 ^ 64 then Inr (seeded s) else Inl Overflow)"

section \<open>\<^verbatim>\<open>data_generators.py\<close>\<close>

record DataConfig =
  num_users :: int
  num_products :: int
  max_sequence_length :: int
  min_sequence_length :: int
  batch_size :: int
  seed :: "int option"

text \<open>The defaults of the dataclass.\<close>

definition default_config :: DataConfig where
  "default_config =
     \<lparr>num_users = 1000, num_products = 10000, max_sequence_length = 20,
      min_sequence_length = 1, batch_size = 32, seed = None\<rparr>"

text \<open>
  A generator object holds its config and nothing else, so it is the config.
  \<^verbatim>\<open>__init__\<close> seeds the global generator when the config has a seed.
\<close>

definition TorchRecDataGenerator_init ::
  "(int \<Rightarrow> 'g) \<Rightarrow> DataConfig \<Rightarrow> 'g \<Rightarrow> error + 'g" where
  "TorchRecDataGenerator_init seeded config g =
     (case seed config of
        None \<Rightarrow> Inr g
      | Some s \<Rightarrow> torch_manual_seed seeded s g)"

definition generate_sequence_lengths ::
  "('g \<Rightarrow> nat \<times> 'g) \<Rightarrow> DataConfig \<Rightarrow> int \<Rightarrow> 'g \<Rightarrow> error + (tensor \<times> 'g)" where
  "generate_sequence_lengths nxt config bsize g =
     torch_randint nxt (min_sequence_length config) (max_sequence_length config) bsize g"

text \<open>The dictionary \<^verbatim>\<open>{"values": ..., "lengths": ...}\<close>.\<close>

record batch =
  batch_values :: tensor
  batch_lengths :: tensor

definition generate_batch ::
  "('g \<Rightarrow> nat \<times> 'g) \<Rightarrow> DataConfig \<Rightarrow> 'g \<Rightarrow> error + (batch \<times> 'g)" where
  "generate_batch nxt config g =
     (case generate_sequence_lengths nxt config (batch_size config) g of
        Inl e \<Rightarrow> Inl e
      | Inr (ls, g1) \<Rightarrow>
          (let total_values = sint (tensor_sum ls) in
           case torch_randint nxt 0 (num_products config) total_values g1 of
             Inl e \<Rightarrow> Inl e
           | Inr (vs, g2) \<Rightarrow> Inr (\<lparr>batch_values = vs, batch_lengths = ls\<rparr>, g2)))"

text \<open>The comprehension \<^verbatim>\<open>[self.generate_batch() for _ in feature_names]\<close>.\<close>

fun generate_batches ::
  "('g \<Rightarrow> nat \<times> 'g) \<Rightarrow> DataConfig \<Rightarrow> string list \<Rightarrow> 'g \<Rightarrow> error + (batch list \<times> 'g)" where
  "generate_batches nxt config [] g = Inr ([], g)"
| "generate_batches nxt config (name # names) g =
     (case generate_batch nxt config g of
        Inl e \<Rightarrow> Inl e
      | Inr (b, g1) \<Rightarrow>
          (case generate_batches nxt config names g1 of
             Inl e \<Rightarrow> Inl e
           | Inr (bs, g2) \<Rightarrow> Inr (b # bs, g2)))"

text \<open>The dictionary \<^verbatim>\<open>{"keys": ..., "values": ..., "lengths": ...}\<close>.\<close>

record kjt_inputs =
  kjt_keys :: "string list"
  kjt_values :: tensor
  kjt_lengths :: tensor

definition generate_kjt_inputs ::
  "('g \<Rightarrow> nat \<times> 'g) \<Rightarrow> DataConfig \<Rightarrow> string list \<Rightarrow> 'g \<Rightarrow> error + (kjt_inputs \<times> 'g)" where
  "generate_kjt_inputs nxt config feature_names g =
     (case generate_batches nxt config feature_names g of
        Inl e \<Rightarrow> Inl e
      | Inr (batches, g1) \<Rightarrow>
          (case torch_cat (map batch_values batches) of
             Inl e \<Rightarrow> Inl e
           | Inr vs \<Rightarrow>
               (case torch_cat (map batch_lengths batches) of
                  Inl e \<Rightarrow> Inl e
                | Inr ls \<Rightarrow>
                    Inr (\<lparr>kjt_keys = feature_names, kjt_values = vs, kjt_lengths = ls\<rparr>, g1))))"

text \<open>
  A caller's run: construct the generator, then call \<^verbatim>\<open>generate_batch\<close> \<open>k\<close> times,
  collecting the batches in call order.
\<close>

fun generate_batch_calls ::
  "('g \<Rightarrow> nat \<times> 'g) \<Rightarrow> DataConfig \<Rightarrow> nat \<Rightarrow> 'g \<Rightarrow> error + (batch list \<times> 'g)" where
  "generate_batch_calls nxt config 0 g = Inr ([], g)"
| "generate_batch_calls nxt config (Suc k) g =
     (case generate_batch nxt config g of
        Inl e \<Rightarrow> Inl e
      | Inr (b, g1) \<Rightarrow>
          (case generate_batch_calls nxt config k g1 of
             Inl e \<Rightarrow> Inl e
           | Inr (bs, g2) \<Rightarrow> Inr (b # bs, g2)))"

definition construct_and_call ::
  "(int \<Rightarrow> 'g) \<Rightarrow> ('g \<Rightarrow> nat \<times> 'g) \<Rightarrow> DataConfig \<Rightarrow> nat \<Rightarrow> 'g \<Rightarrow> error + (batch list \<times> 'g)" where
  "construct_and_call seeded nxt config k g =
     (case TorchRecDataGenerator_init seeded config g of
        Inl e \<Rightarrow> Inl e
      | Inr g0 \<Rightarrow> generate_batch_calls nxt config k g0)"

text \<open>
  A small linear congruential generator and the spec's example config, for evaluating
  the definitions on concrete inputs.
\<close>

definition lcg :: "nat \<Rightarrow> nat \<times> nat" where
  "lcg g = ((75 * g + 74) mod 65537, (75 * g + 74) mod 65537)"

definition lcg_seeded :: "int \<Rightarrow> nat" where
  "lcg_seeded s = nat (s mod 65537)"

definition example_config :: DataConfig where
  "example_config =
     \<lparr>num_users = 10, num_products = 5, max_sequence_length = 3,
      min_sequence_length = 1, batch_size = 4, seed = Some 42\<rparr>"

section \<open>The framework's process-wide state\<close>

text \<open>
  The debug inspector and the environment validator read state that the framework owns:
  whether an accelerator is present and how many devices it has, whether the distributed
  subsystem was built in, the default process group if one was initialised, and whether
  the optional acceleration library is installed. It is passed to each function.
\<close>

record process_group =
  pg_world_size :: int
  pg_rank :: int
  pg_backend :: string

record runtime =
  cuda_is_available :: bool
  cuda_device_count :: int
  distributed_is_available :: bool
  default_group :: "process_group option"
  fbgemm_installed :: bool

definition is_initialized :: "runtime \<Rightarrow> bool" where
  "is_initialized rt \<longleftrightarrow> default_group rt \<noteq> None"

text \<open>Without a process group \<^verbatim>\<open>get_world_size\<close> and \<^verbatim>\<open>get_rank\<close> raise.\<close>

definition get_world_size :: "runtime \<Rightarrow> error + int" where
  "get_world_size rt =
     (case default_group rt of None \<Rightarrow> Inl NotInitialized | Some pg \<Rightarrow> Inr (pg_world_size pg))"

definition get_rank :: "runtime \<Rightarrow> error + int" where
  "get_rank rt =
     (case default_group rt of None \<Rightarrow> Inl NotInitialized | Some pg \<Rightarrow> Inr (pg_rank pg))"

section \<open>\<^verbatim>\<open>debugging.py\<close>\<close>

text \<open>
  What \<^verbatim>\<open>validate_kjt\<close> reads of its argument: the key list, the value tensor (only
  its length and its device matter) and the length tensor. Integer lengths of fewer
  than 64 bits are summed in 64 bits, so the length tensor is given in 64 bits.
\<close>

record 'v jagged =
  jt_keys :: "string list"
  jt_values :: "'v list"
  jt_lengths :: tensor
  jt_is_cuda :: bool

record kjt_report =
  valid_keys :: bool
  lengths_match :: bool
  on_device :: bool

definition validate_kjt :: "runtime \<Rightarrow> 'v jagged \<Rightarrow> kjt_report" where
  "validate_kjt rt kjt =
     \<lparr>valid_keys = (length (jt_keys kjt) > 0),
      lengths_match = (sint (tensor_sum (jt_lengths kjt)) = int (length (jt_values kjt))),
      on_device = (if cuda_is_available rt then jt_is_cuda kjt else True)\<rparr>"

record sharding_report =
  world_size :: int
  local_rank :: int
  device_count :: int

text \<open>The dictionary display evaluates its entries in order; the model is not used.\<close>

definition check_sharding :: "runtime \<Rightarrow> 'm \<Rightarrow> error + sharding_report" where
  "check_sharding rt model =
     (case (if is_initialized rt then get_world_size rt else Inr 1) of
        Inl e \<Rightarrow> Inl e
      | Inr ws \<Rightarrow>
          (case (if is_initialized rt then get_rank rt else Inr 0) of
             Inl e \<Rightarrow> Inl e
           | Inr rk \<Rightarrow>
               Inr \<lparr>world_size = ws, local_rank = rk, device_count = cuda_device_count rt\<rparr>))"

section \<open>\<^verbatim>\<open>environment.py\<close>\<close>

text \<open>
  \<^verbatim>\<open>globals()\<close> inside \<^verbatim>\<open>check_environment\<close> is the namespace of the module
  \<^verbatim>\<open>environment\<close>: the names every module has, the names its three import statements
  bind, and its one class.
\<close>

definition module_dunders :: "string list" where
  "module_dunders =
     [''__name__'', ''__doc__'', ''__package__'', ''__loader__'', ''__spec__'',
      ''__file__'', ''__cached__'', ''__builtins__'']"

definition environment_globals :: "string list" where
  "environment_globals =
     module_dunders @ [''torch'', ''os'', ''Dict'', ''Any'', ''TorchRecEnvironment'']"

record environment_report =
  cuda_available :: bool
  gpu_count :: int
  distributed_available :: bool
  fbgemm_available :: bool

definition check_environment :: "runtime \<Rightarrow> environment_report" where
  "check_environment rt =
     \<lparr>cuda_available = cuda_is_available rt,
      gpu_count = (if cuda_is_available rt then cuda_device_count rt else 0),
      distributed_available = distributed_is_available rt,
      fbgemm_available = (if ''fbgemm'' \<in> set environment_globals then True else False)\<rparr>"

section \<open>\<^verbatim>\<open>benchmark.py\<close>\<close>

definition and_then :: "error + 'a \<Rightarrow> ('a \<Rightarrow> error + 'b) \<Rightarrow> error + 'b" where
  "and_then r f = (case r of Inl e \<Rightarrow> Inl e | Inr x \<Rightarrow> f x)"

subsection \<open>Name resolution\<close>

text \<open>
  A global name is looked up in the module's namespace, then among the builtins;
  a name in neither raises \<^verbatim>\<open>NameError\<close>. Of the builtins, the ones the module mentions
  are listed. The module has no \<^verbatim>\<open>from __future__ import annotations\<close>, so the
  annotations of a \<^verbatim>\<open>def\<close> are evaluated, left to right, when the \<^verbatim>\<open>def\<close> is executed.
\<close>

definition builtin_names :: "string list" where
  "builtin_names = [''int'', ''float'', ''range'']"

definition resolve :: "string list \<Rightarrow> string \<Rightarrow> error + unit" where
  "resolve ns name =
     (if name \<in> set ns \<or> name \<in> set builtin_names then Inr () else Inl (NameError name))"

fun resolve_all :: "string list \<Rightarrow> string list \<Rightarrow> error + unit" where
  "resolve_all ns [] = Inr ()"
| "resolve_all ns (name # names) = and_then (resolve ns name) (\<lambda>_. resolve_all ns names)"

text \<open>Lines 1 to 3: the names the three import statements bind.\<close>

definition benchmark_imports :: "string list" where
  "benchmark_imports = module_dunders @ [''time'', ''dataclass'', ''List'', ''Dict'', ''Callable'']"

text \<open>
  Executing the module: the decorated dataclass (decorator, then the three field
  annotations), then the body of \<^verbatim>\<open>TorchRecBenchmark\<close>: \<^verbatim>\<open>__init__\<close> with two annotations,
  \<^verbatim>\<open>benchmark_forward\<close> with \<^verbatim>\<open>torch.nn.Module\<close>, \<^verbatim>\<open>Any\<close>, \<^verbatim>\<open>int\<close> and the return
  annotation. The result is the namespace of the loaded module.
\<close>

definition load_benchmark_module :: "error + string list" where
  "load_benchmark_module =
     and_then (resolve_all benchmark_imports [''dataclass'', ''float'', ''float'', ''float''])
       (\<lambda>_. and_then (resolve_all (benchmark_imports @ [''BenchmarkResult'']) [''int'', ''int''])
       (\<lambda>_. and_then (resolve_all (benchmark_imports @ [''BenchmarkResult''])
                        [''torch'', ''Any'', ''int'', ''BenchmarkResult''])
       (\<lambda>_. Inr (benchmark_imports @ [''BenchmarkResult'', ''TorchRecBenchmark'']))))"

text \<open>
  The namespace the module would have if its annotations were not evaluated
  (as under deferred evaluation of annotations).
\<close>

definition benchmark_names :: "string list" where
  "benchmark_names = benchmark_imports @ [''BenchmarkResult'', ''TorchRecBenchmark'']"

subsection \<open>The benchmark\<close>

text \<open>
  What the benchmark observes of the outside: the clock that \<^verbatim>\<open>time.perf_counter\<close>
  reads, the device's peak-memory counter, and a log of the calls made. Python floats
  are reals here: rounding is not modelled. The model and the device synchronisation
  are arbitrary: each may change the world and may raise.
\<close>

datatype event = ModelCall | Synchronize | PerfCounter | MaxMemoryAllocated

record world =
  now :: real
  peak_memory :: int
  trace :: "event list"

definition record_event :: "event \<Rightarrow> world \<Rightarrow> world" where
  "record_event e w = w\<lparr>trace := trace w @ [e]\<rparr>"

record BenchmarkResult =
  batch_time_ms :: real
  memory_used_gb :: real
  throughput :: real

record TorchRecBenchmark =
  warmup_steps :: int
  measure_steps :: int

text \<open>\<^verbatim>\<open>for _ in range(k): _ = model(sample_input)\<close>\<close>

fun repeat_model ::
  "('i \<Rightarrow> world \<Rightarrow> error + world) \<Rightarrow> 'i \<Rightarrow> nat \<Rightarrow> world \<Rightarrow> error + world" where
  "repeat_model model x 0 w = Inr w"
| "repeat_model model x (Suc k) w =
     and_then (model x w) (\<lambda>w1. repeat_model model x k (record_event ModelCall w1))"

definition cuda_synchronize :: "(world \<Rightarrow> error + world) \<Rightarrow> world \<Rightarrow> error + world" where
  "cuda_synchronize sync w = and_then (sync w) (\<lambda>w1. Inr (record_event Synchronize w1))"

definition py_div :: "real \<Rightarrow> real \<Rightarrow> error + real" where
  "py_div a b = (if b = 0 then Inl ZeroDivisionError else Inr (a / b))"

text \<open>
  The body of \<^verbatim>\<open>benchmark_forward\<close>, run in the namespace \<open>ns\<close>. Each global name is
  resolved where the body uses it.
\<close>

definition benchmark_forward ::
  "string list \<Rightarrow> TorchRecBenchmark \<Rightarrow> (world \<Rightarrow> error + world) \<Rightarrow>
   ('i \<Rightarrow> world \<Rightarrow> error + world) \<Rightarrow> 'i \<Rightarrow> int \<Rightarrow> world \<Rightarrow> error + (BenchmarkResult \<times> world)" where
  "benchmark_forward ns self sync model sample_input bsize w =
     and_then (resolve ns ''range'') (\<lambda>_.
     and_then (repeat_model model sample_input (nat (warmup_steps self)) w) (\<lambda>w1.
     and_then (resolve ns ''torch'') (\<lambda>_.
     and_then (cuda_synchronize sync w1) (\<lambda>w2.
     and_then (resolve ns ''time'') (\<lambda>_.
     let start_time = now w2; w3 = record_event PerfCounter w2 in
     and_then (resolve ns ''range'') (\<lambda>_.
     and_then (repeat_model model sample_input (nat (measure_steps self)) w3) (\<lambda>w4.
     and_then (resolve ns ''torch'') (\<lambda>_.
     and_then (cuda_synchronize sync w4) (\<lambda>w5.
     and_then (resolve ns ''time'') (\<lambda>_.
     let end_time = now w5; w6 = record_event PerfCounter w5 in
     and_then (py_div ((end_time - start_time) * 1000) (of_int (measure_steps self))) (\<lambda>avg_time.
     and_then (resolve ns ''torch'') (\<lambda>_.
     let memory_used = of_int (peak_memory w6) / 10 ^ 9; w7 = record_event MaxMemoryAllocated w6 in
     and_then (py_div (of_int bsize * 1000) avg_time) (\<lambda>thr.
     and_then (resolve ns ''BenchmarkResult'') (\<lambda>_.
     Inr (\<lparr>batch_time_ms = avg_time, memory_used_gb = memory_used, throughput = thr\<rparr>,
          w7)))))))))))))))"

text \<open>
  A caller reaches \<^verbatim>\<open>benchmark_forward\<close> through the loaded module only: importing the
  module comes first, and the body then runs in the module's namespace.
\<close>

definition invoke_benchmark_forward ::
  "TorchRecBenchmark \<Rightarrow> (world \<Rightarrow> error + world) \<Rightarrow>
   ('i \<Rightarrow> world \<Rightarrow> error + world) \<Rightarrow> 'i \<Rightarrow> int \<Rightarrow> world \<Rightarrow> error + (BenchmarkResult \<times> world)" where
  "invoke_benchmark_forward self sync model sample_input bsize w =
     and_then load_benchmark_module
       (\<lambda>ns. benchmark_forward ns self sync model sample_input bsize w)"

text \<open>
  A model that takes ten milliseconds a call, a device whose synchronisation succeeds,
  and the default benchmark object, for evaluating the definitions.
\<close>

definition example_model :: "unit \<Rightarrow> world \<Rightarrow> error + world" where
  "example_model x w = Inr (w\<lparr>now := now w + 1 / 100\<rparr>)"

definition example_sync :: "world \<Rightarrow> error + world" where
  "example_sync w = Inr w"

definition default_benchmark :: TorchRecBenchmark where
  "default_benchmark = \<lparr>warmup_steps = 3, measure_steps = 10\<rparr>"

definition example_world :: world where
  "example_world = \<lparr>now = 0, peak_memory = 2000000000, trace = []\<rparr>"

text \<open>A single process without accelerator, with the acceleration library installed.\<close>

definition example_runtime :: runtime where
  "example_runtime =
     \<lparr>cuda_is_available = False, cuda_device_count = 0, distributed_is_available = True,
      default_group = None, fbgemm_installed = True\<rparr>"

definition consistent_jagged :: "nat jagged" where
  "consistent_jagged =
     \<lparr>jt_keys = [''user''], jt_values = [7, 8, 9], jt_lengths = [1, 2], jt_is_cuda = False\<rparr>"

definition inconsistent_jagged :: "nat jagged" where
  "inconsistent_jagged =
     \<lparr>jt_keys = [''user''], jt_values = [7], jt_lengths = [1, 2], jt_is_cuda = False\<rparr>"

section \<open>Facts about the primitives\<close>

lemma sint_word_of_int_64:
  "int64_ok k \<Longrightarrow> sint (word_of_int k :: 64 word) = k"
  unfolding int64_ok_def
  by (simp add: sint_sbintrunc' signed_take_bit_int_eq_self)

lemma int64_ok_sint: "int64_ok (sint (w :: 64 word))"
  using sint_ge [of w] sint_lt [of w] by (simp add: int64_ok_def)

lemma draws_length: "length (fst (draws nxt low width n g)) = n"
proof (induction n arbitrary: g)
  case 0
  then show ?case by simp
next
  case (Suc n)
  obtain r g1 where r: "nxt g = (r, g1)" by (cases "nxt g")
  obtain xs g2 where d: "draws nxt low width n g1 = (xs, g2)"
    by (cases "draws nxt low width n g1")
  from Suc.IH [of g1] d have "length xs = n" by simp
  then show ?case by (simp add: r d)
qed

lemma draws_range:
  assumes "0 < width" "int64_ok low" "int64_ok (low + int width)"
  shows "\<forall>x \<in> set (fst (draws nxt low width n g)). low \<le> sint x \<and> sint x < low + int width"
proof (induction n arbitrary: g)
  case 0
  then show ?case by simp
next
  case (Suc n)
  obtain r g1 where r: "nxt g = (r, g1)" by (cases "nxt g")
  obtain xs g2 where d: "draws nxt low width n g1 = (xs, g2)"
    by (cases "draws nxt low width n g1")
  have m: "r mod width < width" using assms(1) by simp
  have ok: "int64_ok (low + int (r mod width))"
    using assms(2,3) m unfolding int64_ok_def by linarith
  have s: "sint (word_of_int (low + int (r mod width)) :: 64 word) = low + int (r mod width)"
    by (rule sint_word_of_int_64 [OF ok])
  have "low \<le> sint (word_of_int (low + int (r mod width)) :: 64 word)"
    and "sint (word_of_int (low + int (r mod width)) :: 64 word) < low + int width"
    unfolding s using m by simp_all
  moreover have "\<forall>x \<in> set xs. low \<le> sint x \<and> sint x < low + int width"
    using Suc.IH [of g1] d by simp
  ultimately show ?case by (simp add: r d)
qed

text \<open>The 64-bit sum is the exact sum of the entries whenever that fits 64 bits.\<close>

lemma tensor_sum_word_of_int: "tensor_sum t = word_of_int (sum_list (map sint t))"
  by (induction t) (simp_all add: tensor_sum_def)

lemma tensor_sum_exact:
  "int64_ok (sum_list (map sint t)) \<Longrightarrow> sint (tensor_sum t) = sum_list (map sint t)"
  by (simp add: tensor_sum_word_of_int sint_word_of_int_64)

lemma torch_randint_Inr:
  assumes "torch_randint nxt low high n g = Inr (xs, g')"
  shows "int (length xs) = n" and "\<forall>x \<in> set xs. low \<le> sint x \<and> sint x < high"
    and "low < high" and "0 \<le> n"
proof -
  from assms have c: "int64_ok low" "int64_ok high" "0 \<le> n" "low < high"
    and d: "draws nxt low (nat (high - low)) (nat n) g = (xs, g')"
    by (auto simp: torch_randint_def split: if_splits)
  from d have xs: "xs = fst (draws nxt low (nat (high - low)) (nat n) g)" by simp
  show "int (length xs) = n" using c(3) by (simp add: xs draws_length)
  have "\<forall>x \<in> set xs. low \<le> sint x \<and> sint x < low + int (nat (high - low))"
    unfolding xs using c by (intro draws_range) simp_all
  then show "\<forall>x \<in> set xs. low \<le> sint x \<and> sint x < high" using c(4) by simp
  show "low < high" "0 \<le> n" using c by simp_all
qed

lemma torch_randint_succeeds:
  assumes "int64_ok low" "int64_ok high" "int64_ok n" "0 \<le> n" "low < high"
  shows "\<exists>xs g'. torch_randint nxt low high n g = Inr (xs, g')"
  using assms by (simp add: torch_randint_def)

section \<open>Evaluating the generator on the example\<close>

lemma draws_numeral:
  "draws nxt low width (numeral k) g =
     (case nxt g of (r, g1) \<Rightarrow>
        (case draws nxt low width (pred_numeral k) g1 of (xs, g2) \<Rightarrow>
           (word_of_int (low + int (r mod width)) # xs, g2)))"
  by (simp add: numeral_eq_Suc)

lemma lcg_run:
  "lcg 42 = (3224, 3224)" "lcg 3224 = (45263, 45263)" "lcg 45263 = (52412, 52412)"
  "lcg 52412 = (64291, 64291)" "lcg 64291 = (37698, 37698)" "lcg 37698 = (9333, 9333)"
  "lcg 9333 = (44679, 44679)" "lcg 44679 = (8612, 8612)" "lcg 8612 = (56141, 56141)"
  "lcg 56141 = (16281, 16281)" "lcg 16281 = (41483, 41483)" "lcg 41483 = (31060, 31060)"
  "lcg 31060 = (35779, 35779)" "lcg 35779 = (62019, 62019)" "lcg 62019 = (63909, 63909)"
  "lcg 63909 = (9048, 9048)" "lcg 9048 = (23304, 23304)" "lcg 23304 = (43912, 43912)"
  "lcg 43912 = (16624, 16624)" "lcg 16624 = (1671, 1671)" "lcg 1671 = (59862, 59862)"
  by (simp_all add: lcg_def)

lemma example_lengths:
  "generate_sequence_lengths lcg example_config 4 42 = Inr ([1, 2, 1, 2], 64291)"
  by (simp add: generate_sequence_lengths_def torch_randint_def example_config_def
      int64_ok_def draws_numeral lcg_run)

lemma example_first_batch:
  "generate_batch lcg example_config 42 =
     Inr (\<lparr>batch_values = [3, 3, 4, 2, 1, 1], batch_lengths = [1, 2, 1, 2]\<rparr>, 16281)"
proof -
  have s: "sint (tensor_sum [1, 2, 1, 2]) = 6"
    by (simp add: tensor_sum_def)
  have v: "torch_randint lcg 0 5 6 64291 = Inr ([3, 3, 4, 2, 1, 1], 16281)"
    by (simp add: torch_randint_def int64_ok_def draws_numeral lcg_run)
  have c: "batch_size example_config = 4" "num_products example_config = 5"
    by (simp_all add: example_config_def)
  show ?thesis
    by (simp add: generate_batch_def c example_lengths s v)
qed

lemma example_second_batch:
  "generate_batch lcg example_config 16281 =
     Inr (\<lparr>batch_values = [4, 3, 4, 2, 4, 1, 2], batch_lengths = [2, 1, 2, 2]\<rparr>, 59862)"
proof -
  have l: "generate_sequence_lengths lcg example_config 4 16281 = Inr ([2, 1, 2, 2], 62019)"
    by (simp add: generate_sequence_lengths_def torch_randint_def example_config_def
        int64_ok_def draws_numeral lcg_run)
  have s: "sint (tensor_sum [2, 1, 2, 2]) = 7"
    by (simp add: tensor_sum_def)
  have v: "torch_randint lcg 0 5 7 62019 = Inr ([4, 3, 4, 2, 4, 1, 2], 59862)"
    by (simp add: torch_randint_def int64_ok_def draws_numeral lcg_run)
  have c: "batch_size example_config = 4" "num_products example_config = 5"
    by (simp_all add: example_config_def)
  show ?thesis
    by (simp add: generate_batch_def c l s v)
qed

section \<open>The synthetic data generator\<close>

lemma generate_batch_Inr:
  assumes "generate_batch nxt config g = Inr (b, g')"
  obtains g1 where
    "generate_sequence_lengths nxt config (batch_size config) g = Inr (batch_lengths b, g1)"
    "torch_randint nxt 0 (num_products config) (sint (tensor_sum (batch_lengths b))) g1
       = Inr (batch_values b, g')"
  using assms
  by (auto simp: generate_batch_def Let_def split: sum.splits prod.splits)

text \<open>
  Claim C1. For every batch that \<^verbatim>\<open>generate_batch\<close> returns, the sum of the entries of
  \<^verbatim>\<open>lengths\<close> equals the number of entries of \<^verbatim>\<open>values\<close>. The sum is the one the code
  takes, \<^verbatim>\<open>lengths.sum()\<close>, in 64 bits; whenever the exact sum of the entries fits
  64 bits, it is that exact sum.
\<close>

theorem generate_batch_lengths_sum:
  assumes "generate_batch nxt config g = Inr (b, g')"
  shows "sint (tensor_sum (batch_lengths b)) = int (length (batch_values b)) \<and>
         (int64_ok (sum_list (map sint (batch_lengths b))) \<longrightarrow>
            sum_list (map sint (batch_lengths b)) = int (length (batch_values b)))"
proof -
  from assms obtain g1 where
    v: "torch_randint nxt 0 (num_products config) (sint (tensor_sum (batch_lengths b))) g1
          = Inr (batch_values b, g')"
    by (rule generate_batch_Inr)
  have "int (length (batch_values b)) = sint (tensor_sum (batch_lengths b))"
    by (rule torch_randint_Inr(1) [OF v])
  then show ?thesis by (simp add: tensor_sum_exact)
qed

theorem generate_batch_lengths_sum_witness:
  "generate_batch lcg example_config 42
     = Inr (\<lparr>batch_values = [3, 3, 4, 2, 1, 1], batch_lengths = [1, 2, 1, 2]\<rparr>, 16281) \<and>
   int64_ok (sum_list (map sint [1, 2, 1, 2 :: 64 word])) \<and>
   sint (tensor_sum [1, 2, 1, 2]) = int (length [3, 3, 4, 2, 1, 1 :: 64 word]) \<and>
   sum_list (map sint [1, 2, 1, 2 :: 64 word]) = int (length [3, 3, 4, 2, 1, 1 :: 64 word])"
proof -
  have ok: "int64_ok (sum_list (map sint [1, 2, 1, 2 :: 64 word]))"
    by (simp add: int64_ok_def)
  from generate_batch_lengths_sum [OF example_first_batch] ok example_first_batch
  show ?thesis by simp
qed

lemma generate_batches_length:
  "generate_batches nxt config names g = Inr (bs, g') \<Longrightarrow> length bs = length names"
proof (induction names arbitrary: g bs)
  case Nil
  then show ?case by simp
next
  case (Cons name names)
  then show ?case
    by (auto split: sum.splits prod.splits)
qed

text \<open>
  Claim C2. For every list of feature names for which \<^verbatim>\<open>generate_kjt_inputs\<close> returns a
  bundle: the batches are the ones generated one per name, in order; \<^verbatim>\<open>values\<close> has as
  many entries as the batches' value tensors together and is their concatenation,
  \<^verbatim>\<open>lengths\<close> is the concatenation of their length tensors in the same order, and
  \<^verbatim>\<open>keys\<close> is the given list.
\<close>

theorem generate_kjt_inputs_concatenates:
  assumes "generate_kjt_inputs nxt config feature_names g = Inr (k, g')"
  shows "\<exists>batches. generate_batches nxt config feature_names g = Inr (batches, g') \<and>
           length batches = length feature_names \<and>
           length (kjt_values k) = sum_list (map (\<lambda>b. length (batch_values b)) batches) \<and>
           kjt_values k = concat (map batch_values batches) \<and>
           kjt_lengths k = concat (map batch_lengths batches) \<and>
           kjt_keys k = feature_names"
proof -
  from assms obtain batches where
    bs: "generate_batches nxt config feature_names g = Inr (batches, g')"
    and v: "kjt_values k = concat (map batch_values batches)"
    and l: "kjt_lengths k = concat (map batch_lengths batches)"
    and ks: "kjt_keys k = feature_names"
    by (auto simp: generate_kjt_inputs_def torch_cat_def split: sum.splits prod.splits if_splits)
  have n: "length batches = length feature_names"
    by (rule generate_batches_length [OF bs])
  have "length (kjt_values k) = sum_list (map (\<lambda>b. length (batch_values b)) batches)"
    by (simp add: v length_concat comp_def)
  with bs v l ks n show ?thesis by blast
qed

lemma example_batches:
  "generate_batches lcg example_config [''user'', ''item''] 42 =
     Inr ([\<lparr>batch_values = [3, 3, 4, 2, 1, 1], batch_lengths = [1, 2, 1, 2]\<rparr>,
           \<lparr>batch_values = [4, 3, 4, 2, 4, 1, 2], batch_lengths = [2, 1, 2, 2]\<rparr>], 59862)"
  by (simp add: example_first_batch example_second_batch)

lemma example_kjt_inputs:
  "generate_kjt_inputs lcg example_config [''user'', ''item''] 42 =
     Inr (\<lparr>kjt_keys = [''user'', ''item''],
           kjt_values = [3, 3, 4, 2, 1, 1, 4, 3, 4, 2, 4, 1, 2],
           kjt_lengths = [1, 2, 1, 2, 2, 1, 2, 2]\<rparr>, 59862)"
  by (simp only: generate_kjt_inputs_def example_batches) (simp add: torch_cat_def)

theorem generate_kjt_inputs_concatenates_witness:
  "generate_kjt_inputs lcg example_config [''user'', ''item''] 42 =
     Inr (\<lparr>kjt_keys = [''user'', ''item''],
           kjt_values = [3, 3, 4, 2, 1, 1, 4, 3, 4, 2, 4, 1, 2],
           kjt_lengths = [1, 2, 1, 2, 2, 1, 2, 2]\<rparr>, 59862) \<and>
   generate_batches lcg example_config [''user'', ''item''] 42 =
     Inr ([\<lparr>batch_values = [3, 3, 4, 2, 1, 1], batch_lengths = [1, 2, 1, 2]\<rparr>,
           \<lparr>batch_values = [4, 3, 4, 2, 4, 1, 2], batch_lengths = [2, 1, 2, 2]\<rparr>], 59862) \<and>
   length [3, 3, 4, 2, 1, 1, 4, 3, 4, 2, 4, 1, 2 :: 64 word] = 6 + 7"
  using generate_kjt_inputs_concatenates [OF example_kjt_inputs] example_kjt_inputs
    example_batches
  by simp

text \<open>
  Claim C3, as stated: with a seeded config, any two calls of \<^verbatim>\<open>generate_batch\<close> on one
  generator return equal tensors. The constructor seeds once and every call advances
  the global generator, so the second call of the example run differs from the first.
\<close>

theorem repeated_calls_differ:
  "seed example_config = Some 42 \<and>
   TorchRecDataGenerator_init lcg_seeded example_config 0 = Inr 42 \<and>
   generate_batch lcg example_config 42 =
     Inr (\<lparr>batch_values = [3, 3, 4, 2, 1, 1], batch_lengths = [1, 2, 1, 2]\<rparr>, 16281) \<and>
   generate_batch lcg example_config 16281 =
     Inr (\<lparr>batch_values = [4, 3, 4, 2, 4, 1, 2], batch_lengths = [2, 1, 2, 2]\<rparr>, 59862) \<and>
   [1, 2, 1, 2] \<noteq> [2, 1, 2, 2 :: 64 word] \<and>
   [3, 3, 4, 2, 1, 1] \<noteq> [4, 3, 4, 2, 4, 1, 2 :: 64 word]"
  using example_first_batch example_second_batch
  by (simp add: TorchRecDataGenerator_init_def torch_manual_seed_def lcg_seeded_def
      example_config_def)

text \<open>
  Claim C3, amended: what the seed fixes is the run. Constructing a generator from a
  seeded config and then calling \<^verbatim>\<open>generate_batch\<close> \<open>k\<close> times gives the same result,
  batch by batch, whatever state the global generator was in before the construction.
\<close>

theorem seeded_run_reproducible:
  assumes "seed config = Some s"
  shows "construct_and_call seeded nxt config k g = construct_and_call seeded nxt config k g'"
  using assms
  by (simp add: construct_and_call_def TorchRecDataGenerator_init_def torch_manual_seed_def)

lemma example_two_calls:
  "generate_batch_calls lcg example_config 2 42 =
     Inr ([\<lparr>batch_values = [3, 3, 4, 2, 1, 1], batch_lengths = [1, 2, 1, 2]\<rparr>,
           \<lparr>batch_values = [4, 3, 4, 2, 4, 1, 2], batch_lengths = [2, 1, 2, 2]\<rparr>], 59862)"
  by (simp add: numeral_2_eq_2 example_first_batch example_second_batch)

theorem seeded_run_reproducible_witness:
  "seed example_config = Some 42 \<and>
   construct_and_call lcg_seeded lcg example_config 2 0 =
     Inr ([\<lparr>batch_values = [3, 3, 4, 2, 1, 1], batch_lengths = [1, 2, 1, 2]\<rparr>,
           \<lparr>batch_values = [4, 3, 4, 2, 4, 1, 2], batch_lengths = [2, 1, 2, 2]\<rparr>], 59862) \<and>
   construct_and_call lcg_seeded lcg example_config 2 7 =
     Inr ([\<lparr>batch_values = [3, 3, 4, 2, 1, 1], batch_lengths = [1, 2, 1, 2]\<rparr>,
           \<lparr>batch_values = [4, 3, 4, 2, 4, 1, 2], batch_lengths = [2, 1, 2, 2]\<rparr>], 59862)"
proof -
  have s: "seed example_config = Some 42"
    by (simp add: example_config_def)
  have i: "TorchRecDataGenerator_init lcg_seeded example_config 0 = Inr 42"
    by (simp add: TorchRecDataGenerator_init_def torch_manual_seed_def lcg_seeded_def s)
  have r: "construct_and_call lcg_seeded lcg example_config 2 0 =
     Inr ([\<lparr>batch_values = [3, 3, 4, 2, 1, 1], batch_lengths = [1, 2, 1, 2]\<rparr>,
           \<lparr>batch_values = [4, 3, 4, 2, 4, 1, 2], batch_lengths = [2, 1, 2, 2]\<rparr>], 59862)"
    by (simp add: construct_and_call_def i example_two_calls)
  from seeded_run_reproducible [OF s, of lcg_seeded lcg 2 0 7] r s show ?thesis
    by simp
qed

text \<open>
  Claim C4. Whenever \<^verbatim>\<open>generate_sequence_lengths(batch_size)\<close> returns, the vector has
  exactly \<open>batch_size\<close> entries, each in \<open>[min_sequence_length, max_sequence_length)\<close>;
  it does return when the bounds and the size fit 64 bits, the size is not negative and
  \<open>min_sequence_length < max_sequence_length\<close>; and with
  \<open>min_sequence_length = max_sequence_length\<close> it raises, the range error of the
  primitive when the arguments are otherwise acceptable.
\<close>

theorem generate_sequence_lengths_range:
  "(\<forall>xs g'. generate_sequence_lengths nxt config bsize g = Inr (xs, g') \<longrightarrow>
      int (length xs) = bsize \<and>
      (\<forall>x \<in> set xs. min_sequence_length config \<le> sint x \<and>
                      sint x < max_sequence_length config)) \<and>
   (int64_ok (min_sequence_length config) \<and> int64_ok (max_sequence_length config) \<and>
    int64_ok bsize \<and> 0 \<le> bsize \<and> min_sequence_length config < max_sequence_length config
      \<longrightarrow> (\<exists>xs g'. generate_sequence_lengths nxt config bsize g = Inr (xs, g'))) \<and>
   (min_sequence_length config = max_sequence_length config \<longrightarrow>
      (\<exists>e. generate_sequence_lengths nxt config bsize g = Inl e) \<and>
      (int64_ok (min_sequence_length config) \<and> int64_ok bsize \<and> 0 \<le> bsize \<longrightarrow>
         generate_sequence_lengths nxt config bsize g = Inl InvalidRange))"
proof (intro conjI allI impI)
  fix xs g'
  assume r: "generate_sequence_lengths nxt config bsize g = Inr (xs, g')"
  then have t: "torch_randint nxt (min_sequence_length config) (max_sequence_length config)
      bsize g = Inr (xs, g')"
    by (simp add: generate_sequence_lengths_def)
  show "int (length xs) = bsize"
    by (rule torch_randint_Inr(1) [OF t])
  show "\<forall>x \<in> set xs. min_sequence_length config \<le> sint x \<and>
      sint x < max_sequence_length config"
    by (rule torch_randint_Inr(2) [OF t])
next
  assume "int64_ok (min_sequence_length config) \<and> int64_ok (max_sequence_length config) \<and>
    int64_ok bsize \<and> 0 \<le> bsize \<and> min_sequence_length config < max_sequence_length config"
  then show "\<exists>xs g'. generate_sequence_lengths nxt config bsize g = Inr (xs, g')"
    unfolding generate_sequence_lengths_def by (intro torch_randint_succeeds) simp_all
next
  assume "min_sequence_length config = max_sequence_length config"
  then show "\<exists>e. generate_sequence_lengths nxt config bsize g = Inl e"
    by (simp add: generate_sequence_lengths_def torch_randint_def)
next
  assume "min_sequence_length config = max_sequence_length config"
    and "int64_ok (min_sequence_length config) \<and> int64_ok bsize \<and> 0 \<le> bsize"
  then show "generate_sequence_lengths nxt config bsize g = Inl InvalidRange"
    by (simp add: generate_sequence_lengths_def torch_randint_def)
qed

theorem generate_sequence_lengths_range_witness:
  "generate_sequence_lengths lcg example_config 4 42 = Inr ([1, 2, 1, 2], 64291) \<and>
   int (length [1, 2, 1, 2 :: 64 word]) = 4 \<and>
   map sint [1, 2, 1, 2 :: 64 word] = [1, 2, 1, 2] \<and>
   min_sequence_length example_config = 1 \<and> max_sequence_length example_config = 3 \<and>
   int64_ok 1 \<and> int64_ok 3 \<and> int64_ok 4 \<and>
   min_sequence_length (example_config\<lparr>max_sequence_length := 1\<rparr>) =
     max_sequence_length (example_config\<lparr>max_sequence_length := 1\<rparr>) \<and>
   generate_sequence_lengths lcg (example_config\<lparr>max_sequence_length := 1\<rparr>) 4 42 =
     Inl InvalidRange"
  using generate_sequence_lengths_range [of lcg example_config 4 42]
    generate_sequence_lengths_range [of lcg "example_config\<lparr>max_sequence_length := 1\<rparr>" 4 42]
    example_lengths
  by (simp add: example_config_def int64_ok_def)

text \<open>
  Claim C5, as stated: an empty feature-name list gives a bundle with empty tensors.
  On the example generator the call raises instead.
\<close>

theorem empty_feature_names_example:
  "generate_kjt_inputs lcg example_config [] 42 = Inl EmptyTensorList"
  by (simp add: generate_kjt_inputs_def torch_cat_def)

text \<open>
  Claim C5, amended: an empty feature-name list is not rejected by any check of
  \<^verbatim>\<open>generate_kjt_inputs\<close> itself. No batch is generated and the random generator is left
  as it was; the concatenation of the empty list of tensors then raises, and no bundle
  is returned.
\<close>

theorem empty_feature_names_raises:
  "generate_batches nxt config [] g = Inr ([], g) \<and>
   generate_kjt_inputs nxt config [] g = Inl EmptyTensorList"
  by (simp add: generate_kjt_inputs_def torch_cat_def)

lemma sum_list_sint_bounds:
  assumes "\<forall>x \<in> set xs. lo \<le> sint x \<and> sint x < hi" "0 \<le> lo"
  shows "0 \<le> sum_list (map sint xs) \<and> sum_list (map sint xs) \<le> int (length xs) * (hi - 1)"
  using assms
proof (induction xs)
  case Nil
  then show ?case by simp
next
  case (Cons x xs)
  then have "0 \<le> sint x" "sint x \<le> hi - 1" by auto
  moreover from Cons have
    "0 \<le> sum_list (map sint xs) \<and> sum_list (map sint xs) \<le> int (length xs) * (hi - 1)"
    by simp
  ultimately show ?case by (simp add: algebra_simps)
qed

text \<open>
  When does \<^verbatim>\<open>generate_batch\<close> return? With bounds that fit 64 bits,
  \<open>0 \<le> min_sequence_length < max_sequence_length\<close>, a batch size that is not negative,
  at least one product, and lengths that cannot add up beyond 64 bits.
\<close>

lemma generate_batch_succeeds:
  assumes "int64_ok (min_sequence_length config)" "int64_ok (max_sequence_length config)"
    and "int64_ok (batch_size config)" "int64_ok (num_products config)"
    and "0 \<le> min_sequence_length config"
    and "min_sequence_length config < max_sequence_length config"
    and "0 \<le> batch_size config" "0 < num_products config"
    and "batch_size config * (max_sequence_length config - 1) < 2 ^ 63"
  shows "\<exists>b g'. generate_batch nxt config g = Inr (b, g')"
proof -
  from torch_randint_succeeds [OF assms(1,2,3,7,6), of nxt g]
  obtain ls g1 where l: "torch_randint nxt (min_sequence_length config)
      (max_sequence_length config) (batch_size config) g = Inr (ls, g1)"
    by blast
  have n: "int (length ls) = batch_size config"
    by (rule torch_randint_Inr(1) [OF l])
  have r: "\<forall>x \<in> set ls. min_sequence_length config \<le> sint x \<and>
      sint x < max_sequence_length config"
    by (rule torch_randint_Inr(2) [OF l])
  from sum_list_sint_bounds [OF r assms(5)] n assms(9)
  have b: "0 \<le> sum_list (map sint ls)" "sum_list (map sint ls) < 2 ^ 63"
    by auto
  then have "int64_ok (sum_list (map sint ls))"
    by (simp add: int64_ok_def)
  then have s: "sint (tensor_sum ls) = sum_list (map sint ls)"
    by (rule tensor_sum_exact)
  have "int64_ok 0" by (simp add: int64_ok_def)
  from torch_randint_succeeds [OF this assms(4) int64_ok_sint _ assms(8),
      of "tensor_sum ls" nxt g1] b(1) s
  obtain vs g2 where "torch_randint nxt 0 (num_products config) (sint (tensor_sum ls)) g1
      = Inr (vs, g2)"
    by auto
  with l show ?thesis
    by (simp add: generate_batch_def generate_sequence_lengths_def)
qed

section \<open>The debug inspector and the environment validator\<close>

text \<open>
  Claim C6. \<^verbatim>\<open>validate_kjt\<close> is a total function of its input (it raises nothing and
  changes nothing), and its \<^verbatim>\<open>lengths_match\<close> field is \<open>False\<close> exactly when the sum of
  the lengths differs from the number of values, \<open>True\<close> otherwise. The sum is the one
  the code takes, \<^verbatim>\<open>kjt.lengths().sum()\<close>, in 64 bits; whenever the exact sum of the
  lengths fits 64 bits, it is that exact sum.
\<close>

theorem validate_kjt_lengths_match:
  "(lengths_match (validate_kjt rt kjt) \<longleftrightarrow>
      sint (tensor_sum (jt_lengths kjt)) = int (length (jt_values kjt))) \<and>
   (int64_ok (sum_list (map sint (jt_lengths kjt))) \<longrightarrow>
      (lengths_match (validate_kjt rt kjt) \<longleftrightarrow>
         sum_list (map sint (jt_lengths kjt)) = int (length (jt_values kjt))))"
  by (simp add: validate_kjt_def tensor_sum_exact)

theorem validate_kjt_lengths_match_witness:
  "int64_ok (sum_list (map sint (jt_lengths consistent_jagged))) \<and>
   sum_list (map sint (jt_lengths consistent_jagged)) = 3 \<and>
   int (length (jt_values consistent_jagged)) = 3 \<and>
   lengths_match (validate_kjt example_runtime consistent_jagged) = True \<and>
   int64_ok (sum_list (map sint (jt_lengths inconsistent_jagged))) \<and>
   sum_list (map sint (jt_lengths inconsistent_jagged)) = 3 \<and>
   int (length (jt_values inconsistent_jagged)) = 1 \<and>
   lengths_match (validate_kjt example_runtime inconsistent_jagged) = False"
  using validate_kjt_lengths_match [of example_runtime consistent_jagged]
    validate_kjt_lengths_match [of example_runtime inconsistent_jagged]
  by (simp add: consistent_jagged_def inconsistent_jagged_def int64_ok_def tensor_sum_def)

text \<open>
  Claim C7. Whenever no process group is initialised, \<^verbatim>\<open>check_sharding\<close> returns, with
  \<^verbatim>\<open>world_size\<close> 1 and \<^verbatim>\<open>local_rank\<close> 0 (and the device count of the runtime).
\<close>

theorem check_sharding_single_process:
  assumes "\<not> is_initialized rt"
  shows "check_sharding rt model =
           Inr \<lparr>world_size = 1, local_rank = 0, device_count = cuda_device_count rt\<rparr>"
  using assms by (simp add: check_sharding_def)

theorem check_sharding_single_process_witness:
  "\<not> is_initialized example_runtime \<and>
   check_sharding example_runtime () = Inr \<lparr>world_size = 1, local_rank = 0, device_count = 0\<rparr>"
proof -
  have n: "\<not> is_initialized example_runtime"
    by (simp add: is_initialized_def example_runtime_def)
  from check_sharding_single_process [OF n, of "()"] n show ?thesis
    by (simp add: example_runtime_def)
qed

text \<open>
  Claim C9. \<^verbatim>\<open>check_environment\<close> reports \<^verbatim>\<open>fbgemm_available\<close> as \<open>False\<close> for every
  state of the runtime, installed library or not: the test looks for the name
  \<^verbatim>\<open>fbgemm\<close> in the module's own namespace, which no statement of the module binds.
\<close>

theorem fbgemm_never_available:
  "fbgemm_available (check_environment rt) = False"
  by (simp add: check_environment_def environment_globals_def module_dunders_def)

section \<open>The benchmark runner\<close>

lemma resolve_torch:
  "resolve benchmark_imports ''torch'' = Inl (NameError ''torch'')"
  "resolve (benchmark_imports @ [''BenchmarkResult'']) ''torch'' = Inl (NameError ''torch'')"
  "resolve benchmark_names ''torch'' = Inl (NameError ''torch'')"
  by (simp_all add: resolve_def benchmark_names_def benchmark_imports_def module_dunders_def
      builtin_names_def)

lemma resolve_Any:
  "resolve benchmark_names ''Any'' = Inl (NameError ''Any'')"
  by (simp add: resolve_def benchmark_names_def benchmark_imports_def module_dunders_def
      builtin_names_def)

lemma resolve_bound:
  "resolve benchmark_imports ''dataclass'' = Inr ()"
  "resolve ns ''int'' = Inr ()" "resolve ns ''float'' = Inr ()" "resolve ns ''range'' = Inr ()"
  by (simp_all add: resolve_def benchmark_imports_def builtin_names_def)

lemma load_benchmark_module_fails:
  "load_benchmark_module = Inl (NameError ''torch'')"
  by (simp add: load_benchmark_module_def and_then_def resolve_bound resolve_torch)

text \<open>
  Were the annotations not evaluated, the module would load, and the body would still
  stop at its first use of \<^verbatim>\<open>torch\<close>, after the warm-up calls: it returns no result
  in that case either.
\<close>

lemma benchmark_forward_body_fails:
  "benchmark_forward benchmark_names self sync model x bsize w =
     (case repeat_model model x (nat (warmup_steps self)) w of
        Inl e \<Rightarrow> Inl e
      | Inr w1 \<Rightarrow> Inl (NameError ''torch''))"
  by (simp add: benchmark_forward_def and_then_def resolve_bound resolve_torch
      split: sum.splits)

text \<open>
  Claim C10. The names \<^verbatim>\<open>torch\<close> and \<^verbatim>\<open>Any\<close> are bound by no statement of the module
  and are no builtins, so resolving either raises \<^verbatim>\<open>NameError\<close>; loading the module
  fails on the first annotation of \<^verbatim>\<open>benchmark_forward\<close>, \<^verbatim>\<open>torch.nn.Module\<close>; and for
  every benchmark object, device, model, sample input, batch size and world, invoking
  \<^verbatim>\<open>benchmark_forward\<close> ends in that \<^verbatim>\<open>NameError\<close> and returns no \<^verbatim>\<open>BenchmarkResult\<close>.
\<close>

theorem benchmark_module_name_errors:
  "resolve benchmark_names ''torch'' = Inl (NameError ''torch'') \<and>
   resolve benchmark_names ''Any'' = Inl (NameError ''Any'') \<and>
   load_benchmark_module = Inl (NameError ''torch'') \<and>
   invoke_benchmark_forward self sync model x bsize w = Inl (NameError ''torch'')"
  by (simp add: invoke_benchmark_forward_def load_benchmark_module_fails and_then_def
      resolve_torch resolve_Any)

text \<open>
  What the body of \<^verbatim>\<open>benchmark_forward\<close> is written to do. In a namespace that binds
  \<^verbatim>\<open>torch\<close>, with a device that synchronises and a model that returns, the body makes
  the warm-up calls, synchronises, reads the clock, makes the timed calls, synchronises
  and reads the clock again, in this order, and it returns the average time per timed
  call in milliseconds and \<open>batch_size * 1000 / avg\<close> as throughput.
\<close>

lemma record_event_fields:
  "now (record_event e w) = now w" "peak_memory (record_event e w) = peak_memory w"
  "trace (record_event e w) = trace w @ [e]"
  by (simp_all add: record_event_def)

lemma benchmark_forward_with_torch:
  assumes ns: "''torch'' \<in> set ns" "''time'' \<in> set ns" "''BenchmarkResult'' \<in> set ns"
    and warm: "repeat_model model x (nat (warmup_steps self)) w = Inr w1"
    and s1: "sync w1 = Inr w2"
    and meas: "repeat_model model x (nat (measure_steps self))
                 (record_event PerfCounter (record_event Synchronize w2)) = Inr w3"
    and s2: "sync w3 = Inr w4"
    and steps: "measure_steps self \<noteq> 0"
    and elapsed: "now w4 \<noteq> now w2"
  shows "benchmark_forward ns self sync model x bsize w =
     Inr (\<lparr>batch_time_ms = (now w4 - now w2) * 1000 / of_int (measure_steps self),
           memory_used_gb = of_int (peak_memory w4) / 10 ^ 9,
           throughput = of_int bsize * 1000 /
             ((now w4 - now w2) * 1000 / of_int (measure_steps self))\<rparr>,
          record_event MaxMemoryAllocated
            (record_event PerfCounter (record_event Synchronize w4)))"
  using ns steps elapsed
  by (simp add: benchmark_forward_def and_then_def resolve_def cuda_synchronize_def
      builtin_names_def warm s1 meas s2 py_div_def record_event_fields Let_def)

text \<open>
  Claim C8. For every model, sample input and batch size, \<^verbatim>\<open>benchmark_forward\<close> makes
  \<open>warmup_steps\<close> untimed and \<open>measure_steps\<close> timed calls between two synchronisations
  and returns the average latency and the throughput. The module as it is does not get
  that far: with the default benchmark object, the example model and batch size 32 the
  call returns no result and raises \<^verbatim>\<open>NameError\<close>.
\<close>

theorem benchmark_forward_default_fails:
  "invoke_benchmark_forward default_benchmark example_sync example_model () 32 example_world =
     Inl (NameError ''torch'')"
  by (simp add: invoke_benchmark_forward_def load_benchmark_module_fails and_then_def)

end
